theory Spec2Isabelle
  imports Main "HOL-Library.Word"
begin

section \<open>JavaScript strings\<close>

text \<open>
  A JavaScript string is a sequence of 16-bit code units. The literals of \<^verbatim>\<open>index.js\<close> are
  all ASCII, so a literal is the image of its bytes; strings that arrive in a request or in a
  response are arbitrary code-unit sequences, lone surrogates included.
\<close>

type_synonym code_unit = "16 word"
type_synonym jsstring = "code_unit list"

definition utf16 :: "string \<Rightarrow> jsstring" where
  "utf16 s = map of_char s"

text \<open>The apostrophe and the backslash, written as code units.\<close>

definition apostrophe :: jsstring where
  "apostrophe = [0x27]"

definition backslash :: jsstring where
  "backslash = [0x5C]"

text \<open>\<^verbatim>\<open>Array.prototype.join\<close> on an array of strings.\<close>

fun join :: "jsstring \<Rightarrow> jsstring list \<Rightarrow> jsstring" where
  "join sep [] = []"
| "join sep [x] = x"
| "join sep (x # y # r) = x @ sep @ join sep (y # r)"

text \<open>The decimal rendering of a natural number, as a template literal prints an integral
  Number such as \<^verbatim>\<open>response.status\<close>.\<close>

definition digit :: "nat \<Rightarrow> code_unit" where
  "digit d = utf16 ''0123456789ABCDEF'' ! d"

function decimal :: "nat \<Rightarrow> jsstring" where
  "decimal n = (if n < 10 then [digit n] else decimal (n div 10) @ [digit (n mod 10)])"
  by pat_completeness auto
termination
  by (relation "measure id") auto

declare decimal.simps [simp del]

section \<open>Errors\<close>

text \<open>
  Everything thrown in \<^verbatim>\<open>index.js\<close>, by its own \<^verbatim>\<open>throw new Error(...)\<close> or by the
  runtime, is an Error object: a class and a \<^verbatim>\<open>message\<close> string. A computation that may
  throw returns \<open>jserror + 'a\<close>, with \<open>Inl\<close> the thrown error.
\<close>

datatype error_class = Error | TypeError | URIError | SyntaxError | OtherError

datatype jserror = Thrown (error_class: error_class) (message: jsstring)

definition throw :: "jsstring \<Rightarrow> jserror + 'a" where
  "throw msg = Inl (Thrown Error msg)"

definition bind :: "jserror + 'a \<Rightarrow> ('a \<Rightarrow> jserror + 'b) \<Rightarrow> jserror + 'b" where
  "bind m f = (case m of Inl e \<Rightarrow> Inl e | Inr x \<Rightarrow> f x)"

fun mapM :: "('a \<Rightarrow> jserror + 'b) \<Rightarrow> 'a list \<Rightarrow> jserror + 'b list" where
  "mapM f [] = Inr []"
| "mapM f (x # xs) = bind (f x) (\<lambda>y. bind (mapM f xs) (\<lambda>ys. Inr (y # ys)))"

section \<open>JSON values and the runtime's conversions\<close>

text \<open>
  The arguments of a call and the payload of a response are JSON values; an object is the
  list of its properties in the order the runtime enumerates them. A property lookup
  yields \<open>None\<close> for \<^verbatim>\<open>undefined\<close>. Numbers are IEEE doubles; the code observes a number
  only through the runtime's \<^verbatim>\<open>ToBoolean\<close>, \<^verbatim>\<open>Number::toString\<close> and finiteness test, so the
  number type is a parameter \<open>'n\<close> and these three operations come with it.
\<close>

datatype 'n json =
    JNull
  | JBool bool
  | JNum 'n
  | JStr jsstring
  | JArr "'n json list"
  | JObj "(jsstring \<times> 'n json) list"

record 'n number_ops =
  isZeroOrNaN :: "'n \<Rightarrow> bool"
  NumberToString :: "'n \<Rightarrow> jsstring"
  isFinite :: "'n \<Rightarrow> bool"

text \<open>The integers, printed in decimal, as one instance.\<close>

definition integers :: "int number_ops" where
  "integers = \<lparr> isZeroOrNaN = (\<lambda>n. n = 0),
                NumberToString = (\<lambda>n. if n < 0 then utf16 ''-'' @ decimal (nat (- n)) else decimal (nat n)),
                isFinite = (\<lambda>n. True) \<rparr>"

fun ToBoolean :: "'n number_ops \<Rightarrow> 'n json option \<Rightarrow> bool" where
  "ToBoolean N None = False"
| "ToBoolean N (Some JNull) = False"
| "ToBoolean N (Some (JBool b)) = b"
| "ToBoolean N (Some (JNum n)) = (\<not> isZeroOrNaN N n)"
| "ToBoolean N (Some (JStr s)) = (s \<noteq> [])"
| "ToBoolean N (Some (JArr xs)) = True"
| "ToBoolean N (Some (JObj kvs)) = True"

fun ToString_json :: "'n number_ops \<Rightarrow> 'n json \<Rightarrow> jsstring" where
  "ToString_json N JNull = utf16 ''null''"
| "ToString_json N (JBool b) = (if b then utf16 ''true'' else utf16 ''false'')"
| "ToString_json N (JNum n) = NumberToString N n"
| "ToString_json N (JStr s) = s"
| "ToString_json N (JArr xs) =
     join (utf16 '','') (map (\<lambda>x. if x = JNull then [] else ToString_json N x) xs)"
| "ToString_json N (JObj kvs) = utf16 ''[object Object]''"

definition ToString :: "'n number_ops \<Rightarrow> 'n json option \<Rightarrow> jsstring" where
  "ToString N v = (case v of None \<Rightarrow> utf16 ''undefined'' | Some j \<Rightarrow> ToString_json N j)"

subsection \<open>encodeURIComponent\<close>

text \<open>
  ECMAScript's \<^verbatim>\<open>Encode\<close> with the unreserved set of \<^verbatim>\<open>encodeURIComponent\<close>: a code unit
  of the set is copied; any other code point is written as its UTF-8 octets, each as
  \<^verbatim>\<open>%XX\<close>; a surrogate that is not half of a pair raises URIError.
\<close>

definition uriUnescaped :: jsstring where
  "uriUnescaped =
     utf16 ''ABCDEFGHIJKLMNOPQRSTUVWXYZabcdefghijklmnopqrstuvwxyz0123456789-_.!~*()'' @ apostrophe"

definition is_lead :: "code_unit \<Rightarrow> bool" where
  "is_lead c = (0xD800 \<le> c \<and> c \<le> 0xDBFF)"

definition is_trail :: "code_unit \<Rightarrow> bool" where
  "is_trail c = (0xDC00 \<le> c \<and> c \<le> 0xDFFF)"

definition code_point :: "code_unit \<Rightarrow> code_unit \<Rightarrow> nat" where
  "code_point lead trail = (unat lead - 0xD800) * 0x400 + (unat trail - 0xDC00) + 0x10000"

definition utf8 :: "nat \<Rightarrow> nat list" where
  "utf8 cp =
     (if cp < 0x80 then [cp]
      else if cp < 0x800 then [0xC0 + cp div 64, 0x80 + cp mod 64]
      else if cp < 0x10000 then [0xE0 + cp div 4096, 0x80 + cp div 64 mod 64, 0x80 + cp mod 64]
      else [0xF0 + cp div 262144, 0x80 + cp div 4096 mod 64, 0x80 + cp div 64 mod 64,
            0x80 + cp mod 64])"

definition percent :: "nat \<Rightarrow> jsstring" where
  "percent octet = utf16 ''%'' @ [digit (octet div 16), digit (octet mod 16)]"

definition escape :: "nat \<Rightarrow> jsstring" where
  "escape cp = concat (map percent (utf8 cp))"

definition malformed :: jserror where
  "malformed = Thrown URIError (utf16 ''URI malformed'')"

fun Encode :: "jsstring \<Rightarrow> jserror + jsstring" where
  "Encode [] = Inr []"
| "Encode (c # cs) =
     (if c \<in> set uriUnescaped then bind (Encode cs) (\<lambda>r. Inr (c # r))
      else if is_trail c then Inl malformed
      else if \<not> is_lead c then bind (Encode cs) (\<lambda>r. Inr (escape (unat c) @ r))
      else (case cs of
              [] \<Rightarrow> Inl malformed
            | d # ds \<Rightarrow>
                if is_trail d then bind (Encode ds) (\<lambda>r. Inr (escape (code_point c d) @ r))
                else Inl malformed))"

definition encodeURIComponent :: "'n number_ops \<Rightarrow> 'n json option \<Rightarrow> jserror + jsstring" where
  "encodeURIComponent N v = Encode (ToString N v)"


subsection \<open>JSON.stringify\<close>

text \<open>
  \<^verbatim>\<open>JSON.stringify(value, null, space)\<close> on a JSON value: \<^verbatim>\<open>QuoteJSONString\<close> for strings
  and keys, \<^verbatim>\<open>null\<close> for a number that is not finite, and the indented layout of
  \<^verbatim>\<open>SerializeJSONObject\<close> and \<^verbatim>\<open>SerializeJSONArray\<close>, where \<open>gap\<close> is the indentation unit
  and \<open>indent\<close> the current indentation.
\<close>

definition quote_mark :: jsstring where
  "quote_mark = [0x22]"

definition newline :: jsstring where
  "newline = [0x0A]"

definition hex :: "nat \<Rightarrow> code_unit" where
  "hex d = utf16 ''0123456789abcdef'' ! d"

definition UnicodeEscape :: "code_unit \<Rightarrow> jsstring" where
  "UnicodeEscape c =
     backslash @ utf16 ''u'' @
     [hex (unat c div 4096), hex (unat c div 256 mod 16), hex (unat c div 16 mod 16),
      hex (unat c mod 16)]"

fun quote_units :: "jsstring \<Rightarrow> jsstring" where
  "quote_units [] = []"
| "quote_units (c # cs) =
     (if c = 0x08 then backslash @ utf16 ''b'' @ quote_units cs
      else if c = 0x09 then backslash @ utf16 ''t'' @ quote_units cs
      else if c = 0x0A then backslash @ utf16 ''n'' @ quote_units cs
      else if c = 0x0C then backslash @ utf16 ''f'' @ quote_units cs
      else if c = 0x0D then backslash @ utf16 ''r'' @ quote_units cs
      else if c = 0x22 then backslash @ quote_mark @ quote_units cs
      else if c = 0x5C then backslash @ backslash @ quote_units cs
      else if c < 0x20 \<or> is_trail c then UnicodeEscape c @ quote_units cs
      else if is_lead c then
        (case cs of
           [] \<Rightarrow> UnicodeEscape c
         | d # ds \<Rightarrow>
             if is_trail d then c # d # quote_units ds else UnicodeEscape c @ quote_units cs)
      else c # quote_units cs)"

definition QuoteJSONString :: "jsstring \<Rightarrow> jsstring" where
  "QuoteJSONString s = quote_mark @ quote_units s @ quote_mark"

fun SerializeJSONProperty ::
  "'n number_ops \<Rightarrow> jsstring \<Rightarrow> jsstring \<Rightarrow> 'n json \<Rightarrow> jsstring" where
  "SerializeJSONProperty N gap indent JNull = utf16 ''null''"
| "SerializeJSONProperty N gap indent (JBool b) = (if b then utf16 ''true'' else utf16 ''false'')"
| "SerializeJSONProperty N gap indent (JNum n) =
     (if isFinite N n then NumberToString N n else utf16 ''null'')"
| "SerializeJSONProperty N gap indent (JStr s) = QuoteJSONString s"
| "SerializeJSONProperty N gap indent (JArr xs) =
     (let stepback = indent;
          indent = indent @ gap;
          partial = map (\<lambda>x. SerializeJSONProperty N gap indent x) xs
      in if partial = [] then utf16 ''[]''
         else if gap = [] then utf16 ''['' @ join (utf16 '','') partial @ utf16 '']''
         else utf16 ''['' @ newline @ indent @ join (utf16 '','' @ newline @ indent) partial @
              newline @ stepback @ utf16 '']'')"
| "SerializeJSONProperty N gap indent (JObj kvs) =
     (let stepback = indent;
          indent = indent @ gap;
          partial = map (\<lambda>kv. QuoteJSONString (fst kv) @ utf16 '':'' @
                                (if gap = [] then [] else utf16 '' '') @
                                SerializeJSONProperty N gap indent (snd kv)) kvs
      in if partial = [] then utf16 ''{}''
         else if gap = [] then utf16 ''{'' @ join (utf16 '','') partial @ utf16 ''}''
         else utf16 ''{'' @ newline @ indent @ join (utf16 '','' @ newline @ indent) partial @
              newline @ stepback @ utf16 ''}'')"

definition JSON_stringify :: "'n number_ops \<Rightarrow> 'n json \<Rightarrow> nat \<Rightarrow> jsstring" where
  "JSON_stringify N v space = SerializeJSONProperty N (replicate (min 10 space) 0x20) [] v"

section \<open>The helpers of index.js\<close>

subsection \<open>buildQueryString\<close>

text \<open>
  \<^verbatim>\<open>
  function buildQueryString(params) {
    const filtered = Object.entries(params || {})
    .filter(([_, value]) => value !== undefined && value !== null && value !== '')
    .map(([key, value]) => `${key}=${encodeURIComponent(value)}`);
    return filtered.length > 0 ? `?${filtered.join('&')}` : '';
  }
  \<close>
  The object passed is a literal whose keys are distinct names, so its entries are its
  properties in the order written; \<open>None\<close> for the whole argument is \<^verbatim>\<open>undefined\<close>.
\<close>

definition buildQueryString ::
  "'n number_ops \<Rightarrow> (jsstring \<times> 'n json option) list option \<Rightarrow> jserror + jsstring" where
  "buildQueryString N params =
     bind (mapM (\<lambda>(key, v). bind (encodeURIComponent N v) (\<lambda>encoded. Inr (key @ utf16 ''='' @ encoded)))
             (filter (\<lambda>(_, v). v \<noteq> None \<and> v \<noteq> Some JNull \<and> v \<noteq> Some (JStr []))
                (case params of None \<Rightarrow> [] | Some entries \<Rightarrow> entries)))
       (\<lambda>filtered. Inr (if length filtered > 0 then utf16 ''?'' @ join (utf16 ''&'') filtered else []))"

subsection \<open>makeApiRequest\<close>

text \<open>
  The network is the environment: \<open>fetch\<close> maps the URL and the init object of a request to
  its outcome, a rejection or a response. A response has its status, and the results of
  reading its body as text and as JSON, each of which may throw. \<^verbatim>\<open>response.ok\<close> is true for
  the statuses 200 to 299. \<^verbatim>\<open>API_KEY\<close> is \<^verbatim>\<open>process.env.API_KEY\<close>, \<open>None\<close> when unset.
  \<^verbatim>\<open>makeApiRequest\<close> returns its result or the error it throws, and the requests it issued.
\<close>

record options =
  method' :: "jsstring option"
  headers :: "jsstring \<rightharpoonup> jsstring"

record 'n response =
  status :: nat
  response_text :: "jserror + jsstring"
  response_json :: "jserror + 'n json"

definition ok :: "'n response \<Rightarrow> bool" where
  "ok r = (200 \<le> status r \<and> status r \<le> 299)"

datatype 'n fetch_outcome = Rejected jserror | Resolved "'n response"

record 'n environment =
  API_KEY :: "jsstring option"
  fetch :: "jsstring \<Rightarrow> options \<Rightarrow> 'n fetch_outcome"

definition API_BASE_URL :: jsstring where
  "API_BASE_URL = utf16 ''https://api.axionquant.com/''"

definition makeApiRequest ::
  "'n environment \<Rightarrow> jsstring \<Rightarrow> options \<Rightarrow> (jserror + 'n json) \<times> (jsstring \<times> options) list" where
  "makeApiRequest env endpoint opts =
     (let url = API_BASE_URL @ endpoint;
          hdrs = [utf16 ''Content-Type'' \<mapsto> utf16 ''application/json'']
                 ++ (case API_KEY env of
                       None \<Rightarrow> Map.empty
                     | Some key \<Rightarrow>
                         if key = [] then Map.empty
                         else [utf16 ''Authorization'' \<mapsto> utf16 ''Bearer '' @ key])
                 ++ headers opts;
          init = opts \<lparr> headers := hdrs \<rparr>;
          attempt =
            (case fetch env url init of
               Rejected error \<Rightarrow> Inl error
             | Resolved response \<Rightarrow>
                 if \<not> ok response then
                   bind (response_text response) (\<lambda>errorText.
                     throw (utf16 ''API request failed: '' @ decimal (status response) @
                            utf16 '' - '' @ errorText))
                 else response_json response)
      in (case attempt of
            Inl error \<Rightarrow> throw (utf16 ''Failed to fetch from '' @ url @ utf16 '': '' @ message error)
          | Inr payload \<Rightarrow> Inr payload,
          [(url, init)]))"

section \<open>The tool catalog\<close>

text \<open>
  The array returned by the ListTools handler, entry by entry in source order. Of each
  entry the name, the names and types of \<^verbatim>\<open>inputSchema.properties\<close> in declaration order and
  \<^verbatim>\<open>inputSchema.required\<close> are kept; the description texts, which no code reads, are left out.
\<close>

record tool =
  name :: jsstring
  properties :: "(jsstring \<times> jsstring) list"
  required :: "jsstring list"

definition ListTools :: "tool list" where
  "ListTools =
    [
      \<lparr> name = utf16 ''credit_search'',
        properties = [(utf16 ''query'', utf16 ''string'')],
        required = [] \<rparr>,
      \<lparr> name = utf16 ''credit_ratings'',
        properties = [(utf16 ''id'', utf16 ''string'')],
        required = [utf16 ''id''] \<rparr>,
      \<lparr> name = utf16 ''econ_search'',
        properties = [(utf16 ''query'', utf16 ''string'')],
        required = [utf16 ''query''] \<rparr>,
      \<lparr> name = utf16 ''econ_dataset'',
        properties = [(utf16 ''id'', utf16 ''string'')],
        required = [utf16 ''id''] \<rparr>,
      \<lparr> name = utf16 ''econ_calendar'',
        properties = [(utf16 ''from'', utf16 ''string''), (utf16 ''to'', utf16 ''string''),
                      (utf16 ''country'', utf16 ''string''), (utf16 ''minImportance'', utf16 ''integer''),
                      (utf16 ''currency'', utf16 ''string''), (utf16 ''category'', utf16 ''string'')],
        required = [] \<rparr>,
      \<lparr> name = utf16 ''esg_data'',
        properties = [(utf16 ''ticker'', utf16 ''string'')],
        required = [utf16 ''ticker''] \<rparr>,
      \<lparr> name = utf16 ''etf_fund'',
        properties = [(utf16 ''ticker'', utf16 ''string'')],
        required = [utf16 ''ticker''] \<rparr>,
      \<lparr> name = utf16 ''etf_weights'',
        properties = [(utf16 ''ticker'', utf16 ''string'')],
        required = [utf16 ''ticker''] \<rparr>,
      \<lparr> name = utf16 ''etf_holdings'',
        properties = [(utf16 ''ticker'', utf16 ''string'')],
        required = [utf16 ''ticker''] \<rparr>,
      \<lparr> name = utf16 ''etf_exposure'',
        properties = [(utf16 ''ticker'', utf16 ''string'')],
        required = [utf16 ''ticker''] \<rparr>,
      \<lparr> name = utf16 ''news_ticker'',
        properties = [(utf16 ''ticker'', utf16 ''string'')],
        required = [utf16 ''ticker''] \<rparr>,
      \<lparr> name = utf16 ''news_country'',
        properties = [(utf16 ''country'', utf16 ''string'')],
        required = [utf16 ''country''] \<rparr>,
      \<lparr> name = utf16 ''news_category'',
        properties = [(utf16 ''category'', utf16 ''string'')],
        required = [utf16 ''category''] \<rparr>,
      \<lparr> name = utf16 ''news_general'',
        properties = [],
        required = [] \<rparr>,
      \<lparr> name = utf16 ''sentiment_social'',
        properties = [(utf16 ''ticker'', utf16 ''string'')],
        required = [utf16 ''ticker''] \<rparr>,
      \<lparr> name = utf16 ''sentiment_news'',
        properties = [(utf16 ''ticker'', utf16 ''string'')],
        required = [utf16 ''ticker''] \<rparr>,
      \<lparr> name = utf16 ''sentiment_analyst'',
        properties = [(utf16 ''ticker'', utf16 ''string'')],
        required = [utf16 ''ticker''] \<rparr>,
      \<lparr> name = utf16 ''supply_chain_customers'',
        properties = [(utf16 ''ticker'', utf16 ''string'')],
        required = [utf16 ''ticker''] \<rparr>,
      \<lparr> name = utf16 ''supply_chain_peers'',
        properties = [(utf16 ''ticker'', utf16 ''string'')],
        required = [utf16 ''ticker''] \<rparr>,
      \<lparr> name = utf16 ''supply_chain_suppliers'',
        properties = [(utf16 ''ticker'', utf16 ''string'')],
        required = [utf16 ''ticker''] \<rparr>,
      \<lparr> name = utf16 ''profiles_asset'',
        properties = [(utf16 ''ticker'', utf16 ''string'')],
        required = [utf16 ''ticker''] \<rparr>,
      \<lparr> name = utf16 ''profiles_recommendation'',
        properties = [(utf16 ''ticker'', utf16 ''string'')],
        required = [utf16 ''ticker''] \<rparr>,
      \<lparr> name = utf16 ''profiles_cashflow'',
        properties = [(utf16 ''ticker'', utf16 ''string'')],
        required = [utf16 ''ticker''] \<rparr>,
      \<lparr> name = utf16 ''profiles_trend_index'',
        properties = [(utf16 ''ticker'', utf16 ''string'')],
        required = [utf16 ''ticker''] \<rparr>,
      \<lparr> name = utf16 ''profiles_statistics'',
        properties = [(utf16 ''ticker'', utf16 ''string'')],
        required = [utf16 ''ticker''] \<rparr>,
      \<lparr> name = utf16 ''profiles_income'',
        properties = [(utf16 ''ticker'', utf16 ''string'')],
        required = [utf16 ''ticker''] \<rparr>,
      \<lparr> name = utf16 ''profiles_fund'',
        properties = [(utf16 ''ticker'', utf16 ''string'')],
        required = [utf16 ''ticker''] \<rparr>,
      \<lparr> name = utf16 ''profiles_summary'',
        properties = [(utf16 ''ticker'', utf16 ''string'')],
        required = [utf16 ''ticker''] \<rparr>,
      \<lparr> name = utf16 ''profiles_insiders'',
        properties = [(utf16 ''ticker'', utf16 ''string'')],
        required = [utf16 ''ticker''] \<rparr>,
      \<lparr> name = utf16 ''profiles_calendar'',
        properties = [(utf16 ''ticker'', utf16 ''string'')],
        required = [utf16 ''ticker''] \<rparr>,
      \<lparr> name = utf16 ''profiles_balancesheet'',
        properties = [(utf16 ''ticker'', utf16 ''string'')],
        required = [utf16 ''ticker''] \<rparr>,
      \<lparr> name = utf16 ''profiles_trend_earnings'',
        properties = [(utf16 ''ticker'', utf16 ''string'')],
        required = [utf16 ''ticker''] \<rparr>,
      \<lparr> name = utf16 ''profiles_institution'',
        properties = [(utf16 ''ticker'', utf16 ''string'')],
        required = [utf16 ''ticker''] \<rparr>,
      \<lparr> name = utf16 ''profiles_ownership'',
        properties = [(utf16 ''ticker'', utf16 ''string'')],
        required = [utf16 ''ticker''] \<rparr>,
      \<lparr> name = utf16 ''profiles_earnings'',
        properties = [(utf16 ''ticker'', utf16 ''string'')],
        required = [utf16 ''ticker''] \<rparr>,
      \<lparr> name = utf16 ''profiles_info'',
        properties = [(utf16 ''ticker'', utf16 ''string'')],
        required = [utf16 ''ticker''] \<rparr>,
      \<lparr> name = utf16 ''profiles_activity'',
        properties = [(utf16 ''ticker'', utf16 ''string'')],
        required = [utf16 ''ticker''] \<rparr>,
      \<lparr> name = utf16 ''profiles_transactions'',
        properties = [(utf16 ''ticker'', utf16 ''string'')],
        required = [utf16 ''ticker''] \<rparr>,
      \<lparr> name = utf16 ''profiles_financials'',
        properties = [(utf16 ''ticker'', utf16 ''string'')],
        required = [utf16 ''ticker''] \<rparr>,
      \<lparr> name = utf16 ''profiles_traffic'',
        properties = [(utf16 ''ticker'', utf16 ''string'')],
        required = [utf16 ''ticker''] \<rparr>,
      \<lparr> name = utf16 ''crypto_tickers'',
        properties = [(utf16 ''type'', utf16 ''string'')],
        required = [] \<rparr>,
      \<lparr> name = utf16 ''crypto_ticker'',
        properties = [(utf16 ''ticker'', utf16 ''string'')],
        required = [utf16 ''ticker''] \<rparr>,
      \<lparr> name = utf16 ''crypto_prices'',
        properties = [(utf16 ''ticker'', utf16 ''string'')],
        required = [utf16 ''ticker''] \<rparr>,
      \<lparr> name = utf16 ''forex_tickers'',
        properties = [(utf16 ''country'', utf16 ''string''), (utf16 ''exchange'', utf16 ''string'')],
        required = [] \<rparr>,
      \<lparr> name = utf16 ''forex_ticker'',
        properties = [(utf16 ''ticker'', utf16 ''string'')],
        required = [utf16 ''ticker''] \<rparr>,
      \<lparr> name = utf16 ''forex_prices'',
        properties = [(utf16 ''ticker'', utf16 ''string'')],
        required = [utf16 ''ticker''] \<rparr>,
      \<lparr> name = utf16 ''future_tickers'',
        properties = [(utf16 ''exchange'', utf16 ''string'')],
        required = [] \<rparr>,
      \<lparr> name = utf16 ''future_ticker'',
        properties = [(utf16 ''ticker'', utf16 ''string'')],
        required = [utf16 ''ticker''] \<rparr>,
      \<lparr> name = utf16 ''future_prices'',
        properties = [(utf16 ''ticker'', utf16 ''string'')],
        required = [utf16 ''ticker''] \<rparr>,
      \<lparr> name = utf16 ''indices_tickers'',
        properties = [(utf16 ''exchange'', utf16 ''string'')],
        required = [] \<rparr>,
      \<lparr> name = utf16 ''indices_ticker'',
        properties = [(utf16 ''ticker'', utf16 ''string'')],
        required = [utf16 ''ticker''] \<rparr>,
      \<lparr> name = utf16 ''indices_prices'',
        properties = [(utf16 ''ticker'', utf16 ''string'')],
        required = [utf16 ''ticker''] \<rparr>,
      \<lparr> name = utf16 ''indices_tickers'',
        properties = [(utf16 ''exchange'', utf16 ''string'')],
        required = [] \<rparr>,
      \<lparr> name = utf16 ''indices_ticker'',
        properties = [(utf16 ''ticker'', utf16 ''string'')],
        required = [utf16 ''ticker''] \<rparr>,
      \<lparr> name = utf16 ''indices_prices'',
        properties = [(utf16 ''ticker'', utf16 ''string'')],
        required = [utf16 ''ticker''] \<rparr>,
      \<lparr> name = utf16 ''stocks_tickers'',
        properties = [(utf16 ''country'', utf16 ''string''), (utf16 ''exchange'', utf16 ''string'')],
        required = [] \<rparr>,
      \<lparr> name = utf16 ''stocks_ticker'',
        properties = [(utf16 ''ticker'', utf16 ''string'')],
        required = [utf16 ''ticker''] \<rparr>,
      \<lparr> name = utf16 ''stocks_prices'',
        properties = [(utf16 ''ticker'', utf16 ''string'')],
        required = [utf16 ''ticker''] \<rparr> ]"

section \<open>The CallTool handler\<close>

text \<open>
  \<^verbatim>\<open>arguments\<close> is optional in a CallTool request: \<open>None\<close> is \<^verbatim>\<open>undefined\<close>, and reading a
  property of it throws a TypeError. Otherwise it is an object of JSON values, and reading a
  property that it lacks yields \<^verbatim>\<open>undefined\<close> (none of the names read is inherited from
  \<^verbatim>\<open>Object.prototype\<close>).
\<close>

definition property ::
  "(jsstring \<rightharpoonup> 'n json) option \<Rightarrow> string \<Rightarrow> jserror + 'n json option" where
  "property args key =
     (case args of
        None \<Rightarrow>
          Inl (Thrown TypeError
                 (utf16 ''Cannot read properties of undefined (reading '' @ apostrophe @
                  utf16 key @ apostrophe @ utf16 '')''))
      | Some obj \<Rightarrow> Inr (obj (utf16 key)))"

text \<open>
  The \<^verbatim>\<open>switch (name)\<close> of the handler up to the assignment of \<^verbatim>\<open>endpoint\<close>, one branch per
  \<^verbatim>\<open>case\<close> in source order. Every case then ends with the same statement,
  \<^verbatim>\<open>result = await makeApiRequest(endpoint, { method: 'GET' })\<close>, which \<open>CallTool\<close> below
  performs.
\<close>

definition CallTool_endpoint ::
  "'n number_ops \<Rightarrow> jsstring \<Rightarrow> (jsstring \<rightharpoonup> 'n json) option \<Rightarrow> jserror + jsstring" where
  "CallTool_endpoint N toolName args =
    (if toolName = utf16 ''credit_search'' then
         bind (property args ''query'') (\<lambda>query.
           bind (buildQueryString N (Some [(utf16 ''query'', query)]))
             (\<lambda>queryParams. Inr (utf16 ''credit/search'' @ queryParams)))
     else if toolName = utf16 ''credit_ratings'' then
         bind (property args ''id'') (\<lambda>ident.
           if \<not> ToBoolean N ident then throw (utf16 ''Organization ID is required'')
           else Inr (utf16 ''credit/ratings/'' @ ToString N ident))
     else if toolName = utf16 ''econ_search'' then
         bind (property args ''query'') (\<lambda>query.
           if \<not> ToBoolean N query then throw (utf16 ''Search query is required'')
           else bind (buildQueryString N (Some [(utf16 ''query'', query)]))
             (\<lambda>queryParams. Inr (utf16 ''econ/search'' @ queryParams)))
     else if toolName = utf16 ''econ_dataset'' then
         bind (property args ''id'') (\<lambda>ident.
           if \<not> ToBoolean N ident then throw (utf16 ''Dataset ID is required'')
           else Inr (utf16 ''econ/dataset/'' @ ToString N ident))
     else if toolName = utf16 ''econ_calendar'' then
         bind (property args ''from'') (\<lambda>from_date.
         bind (property args ''to'') (\<lambda>to_date.
         bind (property args ''country'') (\<lambda>country.
         bind (property args ''minImportance'') (\<lambda>minImportance.
         bind (property args ''currency'') (\<lambda>currency.
         bind (property args ''category'') (\<lambda>category.
           bind (buildQueryString N (Some [(utf16 ''from'', from_date), (utf16 ''to'', to_date),
                    (utf16 ''country'', country), (utf16 ''minImportance'', minImportance),
                    (utf16 ''currency'', currency), (utf16 ''category'', category)]))
             (\<lambda>queryParams. Inr (utf16 ''econ/calendar'' @ queryParams))))))))
     else if toolName = utf16 ''esg_data'' then
         bind (property args ''ticker'') (\<lambda>ticker.
           if \<not> ToBoolean N ticker then throw (utf16 ''Ticker symbol is required'')
           else Inr (utf16 ''esg/'' @ ToString N ticker))
     else if toolName = utf16 ''etf_fund'' then
         bind (property args ''ticker'') (\<lambda>ticker.
           if \<not> ToBoolean N ticker then throw (utf16 ''ETF ticker symbol is required'')
           else Inr (utf16 ''etf/'' @ ToString N ticker @ utf16 ''/fund''))
     else if toolName = utf16 ''etf_weights'' then
         bind (property args ''ticker'') (\<lambda>ticker.
           if \<not> ToBoolean N ticker then throw (utf16 ''ETF ticker symbol is required'')
           else Inr (utf16 ''etf/'' @ ToString N ticker @ utf16 ''/weights''))
     else if toolName = utf16 ''etf_holdings'' then
         bind (property args ''ticker'') (\<lambda>ticker.
           if \<not> ToBoolean N ticker then throw (utf16 ''ETF ticker symbol is required'')
           else Inr (utf16 ''etf/'' @ ToString N ticker @ utf16 ''/holdings''))
     else if toolName = utf16 ''etf_exposure'' then
         bind (property args ''ticker'') (\<lambda>ticker.
           if \<not> ToBoolean N ticker then throw (utf16 ''Ticker symbol is required'')
           else Inr (utf16 ''etf/'' @ ToString N ticker @ utf16 ''/exposure''))
     else if toolName = utf16 ''news_ticker'' then
         bind (property args ''ticker'') (\<lambda>ticker.
           if \<not> ToBoolean N ticker then throw (utf16 ''Ticker symbol is required'')
           else Inr (utf16 ''news/'' @ ToString N ticker))
     else if toolName = utf16 ''news_country'' then
         bind (property args ''country'') (\<lambda>country.
           if \<not> ToBoolean N country then throw (utf16 ''Country parameter is required'')
           else bind (encodeURIComponent N country) (\<lambda>segment. Inr (utf16 ''news/country/'' @ segment)))
     else if toolName = utf16 ''news_category'' then
         bind (property args ''category'') (\<lambda>category.
           if \<not> ToBoolean N category then throw (utf16 ''Category parameter is required'')
           else bind (encodeURIComponent N category) (\<lambda>segment. Inr (utf16 ''news/category/'' @ segment)))
     else if toolName = utf16 ''news_general'' then
         Inr (utf16 ''news'')
     else if toolName = utf16 ''sentiment_social'' then
         bind (property args ''ticker'') (\<lambda>ticker.
           if \<not> ToBoolean N ticker then throw (utf16 ''Ticker symbol is required'')
           else Inr (utf16 ''sentiment/'' @ ToString N ticker @ utf16 ''/social''))
     else if toolName = utf16 ''sentiment_news'' then
         bind (property args ''ticker'') (\<lambda>ticker.
           if \<not> ToBoolean N ticker then throw (utf16 ''Ticker symbol is required'')
           else Inr (utf16 ''sentiment/'' @ ToString N ticker @ utf16 ''/news''))
     else if toolName = utf16 ''sentiment_analyst'' then
         bind (property args ''ticker'') (\<lambda>ticker.
           if \<not> ToBoolean N ticker then throw (utf16 ''Ticker symbol is required'')
           else Inr (utf16 ''sentiment/'' @ ToString N ticker @ utf16 ''/analyst''))
     else if toolName = utf16 ''supply_chain_customers'' then
         bind (property args ''ticker'') (\<lambda>ticker.
           if \<not> ToBoolean N ticker then throw (utf16 ''Ticker symbol is required'')
           else Inr (utf16 ''supply-chain/'' @ ToString N ticker @ utf16 ''/customers''))
     else if toolName = utf16 ''supply_chain_peers'' then
         bind (property args ''ticker'') (\<lambda>ticker.
           if \<not> ToBoolean N ticker then throw (utf16 ''Ticker symbol is required'')
           else Inr (utf16 ''supply-chain/'' @ ToString N ticker @ utf16 ''/peers''))
     else if toolName = utf16 ''supply_chain_suppliers'' then
         bind (property args ''ticker'') (\<lambda>ticker.
           if \<not> ToBoolean N ticker then throw (utf16 ''Ticker symbol is required'')
           else Inr (utf16 ''supply-chain/'' @ ToString N ticker @ utf16 ''/suppliers''))
     else if toolName = utf16 ''profiles_asset'' then
         bind (property args ''ticker'') (\<lambda>ticker.
           if \<not> ToBoolean N ticker then throw (utf16 ''Ticker symbol is required'')
           else Inr (utf16 ''profiles/'' @ ToString N ticker @ utf16 ''/asset''))
     else if toolName = utf16 ''profiles_recommendation'' then
         bind (property args ''ticker'') (\<lambda>ticker.
           if \<not> ToBoolean N ticker then throw (utf16 ''Ticker symbol is required'')
           else Inr (utf16 ''profiles/'' @ ToString N ticker @ utf16 ''/recommendation''))
     else if toolName = utf16 ''profiles_cashflow'' then
         bind (property args ''ticker'') (\<lambda>ticker.
           if \<not> ToBoolean N ticker then throw (utf16 ''Ticker symbol is required'')
           else Inr (utf16 ''profiles/'' @ ToString N ticker @ utf16 ''/cashflow''))
     else if toolName = utf16 ''profiles_trend_index'' then
         bind (property args ''ticker'') (\<lambda>ticker.
           if \<not> ToBoolean N ticker then throw (utf16 ''Ticker symbol is required'')
           else Inr (utf16 ''profiles/'' @ ToString N ticker @ utf16 ''/trend/index''))
     else if toolName = utf16 ''profiles_statistics'' then
         bind (property args ''ticker'') (\<lambda>ticker.
           if \<not> ToBoolean N ticker then throw (utf16 ''Ticker symbol is required'')
           else Inr (utf16 ''profiles/'' @ ToString N ticker @ utf16 ''/statistics''))
     else if toolName = utf16 ''profiles_income'' then
         bind (property args ''ticker'') (\<lambda>ticker.
           if \<not> ToBoolean N ticker then throw (utf16 ''Ticker symbol is required'')
           else Inr (utf16 ''profiles/'' @ ToString N ticker @ utf16 ''/income''))
     else if toolName = utf16 ''profiles_fund'' then
         bind (property args ''ticker'') (\<lambda>ticker.
           if \<not> ToBoolean N ticker then throw (utf16 ''Ticker symbol is required'')
           else Inr (utf16 ''profiles/'' @ ToString N ticker @ utf16 ''/fund''))
     else if toolName = utf16 ''profiles_summary'' then
         bind (property args ''ticker'') (\<lambda>ticker.
           if \<not> ToBoolean N ticker then throw (utf16 ''Ticker symbol is required'')
           else Inr (utf16 ''profiles/'' @ ToString N ticker @ utf16 ''/summary''))
     else if toolName = utf16 ''profiles_insiders'' then
         bind (property args ''ticker'') (\<lambda>ticker.
           if \<not> ToBoolean N ticker then throw (utf16 ''Ticker symbol is required'')
           else Inr (utf16 ''profiles/'' @ ToString N ticker @ utf16 ''/insiders''))
     else if toolName = utf16 ''profiles_calendar'' then
         bind (property args ''ticker'') (\<lambda>ticker.
           if \<not> ToBoolean N ticker then throw (utf16 ''Ticker symbol is required'')
           else Inr (utf16 ''profiles/'' @ ToString N ticker @ utf16 ''/calendar''))
     else if toolName = utf16 ''profiles_balancesheet'' then
         bind (property args ''ticker'') (\<lambda>ticker.
           if \<not> ToBoolean N ticker then throw (utf16 ''Ticker symbol is required'')
           else Inr (utf16 ''profiles/'' @ ToString N ticker @ utf16 ''/balancesheet''))
     else if toolName = utf16 ''profiles_trend_earnings'' then
         bind (property args ''ticker'') (\<lambda>ticker.
           if \<not> ToBoolean N ticker then throw (utf16 ''Ticker symbol is required'')
           else Inr (utf16 ''profiles/'' @ ToString N ticker @ utf16 ''/trend/earnings''))
     else if toolName = utf16 ''profiles_institution'' then
         bind (property args ''ticker'') (\<lambda>ticker.
           if \<not> ToBoolean N ticker then throw (utf16 ''Ticker symbol is required'')
           else Inr (utf16 ''profiles/'' @ ToString N ticker @ utf16 ''/institution''))
     else if toolName = utf16 ''profiles_ownership'' then
         bind (property args ''ticker'') (\<lambda>ticker.
           if \<not> ToBoolean N ticker then throw (utf16 ''Ticker symbol is required'')
           else Inr (utf16 ''profiles/'' @ ToString N ticker @ utf16 ''/ownership''))
     else if toolName = utf16 ''profiles_earnings'' then
         bind (property args ''ticker'') (\<lambda>ticker.
           if \<not> ToBoolean N ticker then throw (utf16 ''Ticker symbol is required'')
           else Inr (utf16 ''profiles/'' @ ToString N ticker @ utf16 ''/earnings''))
     else if toolName = utf16 ''profiles_info'' then
         bind (property args ''ticker'') (\<lambda>ticker.
           if \<not> ToBoolean N ticker then throw (utf16 ''Ticker symbol is required'')
           else Inr (utf16 ''profiles/'' @ ToString N ticker @ utf16 ''/info''))
     else if toolName = utf16 ''profiles_activity'' then
         bind (property args ''ticker'') (\<lambda>ticker.
           if \<not> ToBoolean N ticker then throw (utf16 ''Ticker symbol is required'')
           else Inr (utf16 ''profiles/'' @ ToString N ticker @ utf16 ''/activity''))
     else if toolName = utf16 ''profiles_transactions'' then
         bind (property args ''ticker'') (\<lambda>ticker.
           if \<not> ToBoolean N ticker then throw (utf16 ''Ticker symbol is required'')
           else Inr (utf16 ''profiles/'' @ ToString N ticker @ utf16 ''/transactions''))
     else if toolName = utf16 ''profiles_financials'' then
         bind (property args ''ticker'') (\<lambda>ticker.
           if \<not> ToBoolean N ticker then throw (utf16 ''Ticker symbol is required'')
           else Inr (utf16 ''profiles/'' @ ToString N ticker @ utf16 ''/financials''))
     else if toolName = utf16 ''profiles_traffic'' then
         bind (property args ''ticker'') (\<lambda>ticker.
           if \<not> ToBoolean N ticker then throw (utf16 ''Ticker symbol is required'')
           else Inr (utf16 ''profiles/'' @ ToString N ticker @ utf16 ''/traffic''))
     else if toolName = utf16 ''crypto_tickers'' then
         bind (property args ''type'') (\<lambda>ty.
           bind (buildQueryString N (Some [(utf16 ''type'', ty)]))
             (\<lambda>queryParams. Inr (utf16 ''crypto/tickers'' @ queryParams)))
     else if toolName = utf16 ''crypto_ticker'' then
         bind (property args ''ticker'') (\<lambda>ticker.
           if \<not> ToBoolean N ticker then throw (utf16 ''Cryptocurrency ticker symbol is required'')
           else Inr (utf16 ''crypto/'' @ ToString N ticker))
     else if toolName = utf16 ''crypto_prices'' then
         bind (property args ''ticker'') (\<lambda>ticker.
           if \<not> ToBoolean N ticker then throw (utf16 ''Cryptocurrency ticker symbol is required'')
           else Inr (utf16 ''crypto/'' @ ToString N ticker @ utf16 ''/prices''))
     else if toolName = utf16 ''forex_tickers'' then
         bind (property args ''country'') (\<lambda>country. bind (property args ''exchange'') (\<lambda>exchange.
           bind (buildQueryString N (Some [(utf16 ''country'', country), (utf16 ''exchange'', exchange)]))
             (\<lambda>queryParams. Inr (utf16 ''forex/tickers'' @ queryParams))))
     else if toolName = utf16 ''forex_ticker'' then
         bind (property args ''ticker'') (\<lambda>ticker.
           if \<not> ToBoolean N ticker then throw (utf16 ''Forex ticker symbol is required'')
           else Inr (utf16 ''forex/'' @ ToString N ticker))
     else if toolName = utf16 ''forex_prices'' then
         bind (property args ''ticker'') (\<lambda>ticker.
           if \<not> ToBoolean N ticker then throw (utf16 ''Forex ticker symbol is required'')
           else Inr (utf16 ''forex/'' @ ToString N ticker @ utf16 ''/prices''))
     else if toolName = utf16 ''future_tickers'' then
         bind (property args ''exchange'') (\<lambda>exchange.
           bind (buildQueryString N (Some [(utf16 ''exchange'', exchange)]))
             (\<lambda>queryParams. Inr (utf16 ''future/tickers'' @ queryParams)))
     else if toolName = utf16 ''future_ticker'' then
         bind (property args ''ticker'') (\<lambda>ticker.
           if \<not> ToBoolean N ticker then throw (utf16 ''Futures ticker symbol is required'')
           else Inr (utf16 ''future/'' @ ToString N ticker))
     else if toolName = utf16 ''future_prices'' then
         bind (property args ''ticker'') (\<lambda>ticker.
           if \<not> ToBoolean N ticker then throw (utf16 ''Futures ticker symbol is required'')
           else Inr (utf16 ''future/'' @ ToString N ticker @ utf16 ''/prices''))
     else if toolName = utf16 ''indices_tickers'' then
         bind (property args ''exchange'') (\<lambda>exchange.
           bind (buildQueryString N (Some [(utf16 ''exchange'', exchange)]))
             (\<lambda>queryParams. Inr (utf16 ''indices/tickers'' @ queryParams)))
     else if toolName = utf16 ''indices_ticker'' then
         bind (property args ''ticker'') (\<lambda>ticker.
           if \<not> ToBoolean N ticker then throw (utf16 ''Index ticker symbol is required'')
           else Inr (utf16 ''indices/'' @ ToString N ticker))
     else if toolName = utf16 ''indices_prices'' then
         bind (property args ''ticker'') (\<lambda>ticker.
           if \<not> ToBoolean N ticker then throw (utf16 ''Index ticker symbol is required'')
           else Inr (utf16 ''indices/'' @ ToString N ticker @ utf16 ''/prices''))
     else if toolName = utf16 ''stocks_tickers'' then
         bind (property args ''country'') (\<lambda>country. bind (property args ''exchange'') (\<lambda>exchange.
           bind (buildQueryString N (Some [(utf16 ''country'', country), (utf16 ''exchange'', exchange)]))
             (\<lambda>queryParams. Inr (utf16 ''stocks/tickers'' @ queryParams))))
     else if toolName = utf16 ''stocks_ticker'' then
         bind (property args ''ticker'') (\<lambda>ticker.
           if \<not> ToBoolean N ticker then throw (utf16 ''Stock ticker symbol is required'')
           else Inr (utf16 ''stocks/'' @ ToString N ticker))
     else if toolName = utf16 ''stocks_prices'' then
         bind (property args ''ticker'') (\<lambda>ticker.
           if \<not> ToBoolean N ticker then throw (utf16 ''Stock ticker symbol is required'')
           else Inr (utf16 ''stocks/'' @ ToString N ticker @ utf16 ''/prices''))
     else throw (utf16 ''Unknown tool: '' @ toolName))"

record content_block =
  type :: jsstring
  text' :: jsstring

record result =
  content :: "content_block list"
  isError :: "bool option"

text \<open>
  The handler: the \<^verbatim>\<open>try\<close> block yields the payload or the error thrown, the \<^verbatim>\<open>catch\<close>
  block turns any error into an envelope. The value is \<open>Inr\<close> the envelope returned, or
  \<open>Inl\<close> an error that leaves the handler uncaught, together with the requests issued.
\<close>

definition CallTool ::
  "'n number_ops \<Rightarrow> 'n environment \<Rightarrow> jsstring \<Rightarrow> (jsstring \<rightharpoonup> 'n json) option \<Rightarrow>
   (jserror + result) \<times> (jsstring \<times> options) list" where
  "CallTool N env toolName args =
     (case (case CallTool_endpoint N toolName args of
              Inl error \<Rightarrow> (Inl error, [])
            | Inr endpoint \<Rightarrow>
                makeApiRequest env endpoint \<lparr> method' = Some (utf16 ''GET''), headers = Map.empty \<rparr>)
      of
        (Inr payload, requests) \<Rightarrow>
          (Inr \<lparr> content = [\<lparr> type = utf16 ''text'', text' = JSON_stringify N payload 2 \<rparr>],
                 isError = None \<rparr>,
           requests)
      | (Inl error, requests) \<Rightarrow>
          (Inr \<lparr> content = [\<lparr> type = utf16 ''text'', text' = utf16 ''Error: '' @ message error \<rparr>],
                 isError = Some True \<rparr>,
           requests))"

section \<open>Example environments\<close>

text \<open>Environments for the concrete instances below: a network that is down, one that
  answers every request with 404 and the body \<^verbatim>\<open>Not Found\<close>, and one that answers every
  request with 200 and a small JSON document.\<close>

definition offline :: "int environment" where
  "offline = \<lparr> API_KEY = None,
               fetch = (\<lambda>url init. Rejected (Thrown TypeError (utf16 ''fetch failed''))) \<rparr>"

definition not_found :: "int environment" where
  "not_found = \<lparr> API_KEY = Some (utf16 ''secret''),
                 fetch = (\<lambda>url init. Resolved \<lparr> status = 404,
                            response_text = Inr (utf16 ''Not Found''),
                            response_json = Inl (Thrown SyntaxError (utf16 ''Unexpected token'')) \<rparr>) \<rparr>"

definition quotes :: "int json" where
  "quotes = JObj [(utf16 ''ticker'', JStr (utf16 ''AAPL'')), (utf16 ''prices'', JArr [JNum 1, JNum 2])]"

definition serving :: "int environment" where
  "serving = \<lparr> API_KEY = Some [],
               fetch = (\<lambda>url init. Resolved \<lparr> status = 200,
                          response_text = Inr (utf16 ''{}''),
                          response_json = Inr quotes \<rparr>) \<rparr>"

section \<open>Basic facts\<close>

subsection \<open>Literals\<close>

lemma unat_of_char: "unat (of_char c :: 16 word) = of_char c"
proof -
  have lt: "(of_char c :: nat) < 65536" using nat_of_char_less_256 [of c] by linarith
  have "(of_char c :: 16 word) = of_nat (of_char c)" by (simp add: of_nat_of_char)
  then have "unat (of_char c :: 16 word) = unat (of_nat (of_char c) :: 16 word)" by simp
  also have "\<dots> = of_char c" using lt by (simp add: unat_of_nat)
  finally show ?thesis .
qed

lemma inj_of_char_word: "inj (of_char :: char \<Rightarrow> 16 word)"
proof (rule injI)
  fix c d :: char
  assume "(of_char c :: 16 word) = of_char d"
  then have "unat (of_char c :: 16 word) = unat (of_char d :: 16 word)" by (rule arg_cong)
  then have "(of_char c :: nat) = of_char d" by (simp only: unat_of_char)
  then show "c = d" by (rule of_char_eqI)
qed

text \<open>Distinct literals are distinct strings, and literals concatenate.\<close>

lemma utf16_eq [simp]: "utf16 a = utf16 b \<longleftrightarrow> a = b"
  unfolding utf16_def by (rule inj_map_eq_map [OF inj_of_char_word])

lemma utf16_Nil [simp]: "utf16 s = [] \<longleftrightarrow> s = []"
  by (simp add: utf16_def)

lemma utf16_append: "utf16 a @ utf16 b = utf16 (a @ b)"
  by (simp add: utf16_def)

lemma utf16_append_left: "utf16 a @ utf16 b @ x = utf16 (a @ b) @ x"
  by (simp add: utf16_def)

subsection \<open>Sequencing\<close>

lemma bind_Inr [simp]: "bind (Inr x) f = f x"
  by (simp add: bind_def)

lemma bind_Inl [simp]: "bind (Inl e) f = Inl e"
  by (simp add: bind_def)


lemma ToBoolean_absent_or_empty:
  "v = None \<or> v = Some (JStr []) \<Longrightarrow> \<not> ToBoolean N v"
  by (erule disjE) simp_all

subsection \<open>encodeURIComponent succeeds exactly on well-formed strings\<close>



subsection \<open>buildQueryString on well-formed values\<close>



subsection \<open>The two ways out of the handler\<close>

lemma snd_makeApiRequest:
  "snd (makeApiRequest env endpoint opts) =
     [(API_BASE_URL @ endpoint,
       opts \<lparr> headers :=
         [utf16 ''Content-Type'' \<mapsto> utf16 ''application/json'']
         ++ (case API_KEY env of None \<Rightarrow> Map.empty
             | Some key \<Rightarrow> if key = [] then Map.empty
                           else [utf16 ''Authorization'' \<mapsto> utf16 ''Bearer '' @ key])
         ++ headers opts \<rparr>)]"
  by (simp add: makeApiRequest_def Let_def)

lemma makeApiRequest_outcome:
  assumes "snd (makeApiRequest env endpoint opts) = [(url, init)]"
  shows "fst (makeApiRequest env endpoint opts) =
     (case (case fetch env url init of
              Rejected error \<Rightarrow> Inl error
            | Resolved response \<Rightarrow>
                if \<not> ok response then
                  bind (response_text response) (\<lambda>errorText.
                    throw (utf16 ''API request failed: '' @ decimal (status response) @
                           utf16 '' - '' @ errorText))
                else response_json response)
      of Inl error \<Rightarrow> throw (utf16 ''Failed to fetch from '' @ url @ utf16 '': '' @ message error)
       | Inr payload \<Rightarrow> Inr payload)"
  using assms by (simp add: makeApiRequest_def Let_def)

lemma CallTool_thrown:
  "CallTool_endpoint N toolName args = Inl error \<Longrightarrow>
   CallTool N env toolName args =
     (Inr \<lparr> content = [\<lparr> type = utf16 ''text'', text' = utf16 ''Error: '' @ message error \<rparr>],
            isError = Some True \<rparr>, [])"
  by (simp add: CallTool_def)

lemma CallTool_dispatched:
  "CallTool_endpoint N toolName args = Inr endpoint \<Longrightarrow>
   CallTool N env toolName args =
     (case fst (makeApiRequest env endpoint \<lparr> method' = Some (utf16 ''GET''), headers = Map.empty \<rparr>) of
        Inr payload \<Rightarrow>
          Inr \<lparr> content = [\<lparr> type = utf16 ''text'', text' = JSON_stringify N payload 2 \<rparr>],
                isError = None \<rparr>
      | Inl error \<Rightarrow>
          Inr \<lparr> content = [\<lparr> type = utf16 ''text'', text' = utf16 ''Error: '' @ message error \<rparr>],
                isError = Some True \<rparr>,
      snd (makeApiRequest env endpoint \<lparr> method' = Some (utf16 ''GET''), headers = Map.empty \<rparr>))"
  by (simp add: CallTool_def split: prod.split sum.split)

lemma CallTool_requests:
  "snd (CallTool N env toolName args) =
     (case CallTool_endpoint N toolName args of
        Inl error \<Rightarrow> []
      | Inr endpoint \<Rightarrow>
          snd (makeApiRequest env endpoint \<lparr> method' = Some (utf16 ''GET''), headers = Map.empty \<rparr>))"
  by (cases "CallTool_endpoint N toolName args") (simp_all add: CallTool_thrown CallTool_dispatched)

lemma CallTool_outcome:
  assumes "snd (CallTool N env toolName args) = [(url, init)]"
  shows "fst (CallTool N env toolName args) =
     (case (case fetch env url init of
              Rejected error \<Rightarrow> Inl error
            | Resolved response \<Rightarrow>
                if \<not> ok response then
                  bind (response_text response) (\<lambda>errorText.
                    throw (utf16 ''API request failed: '' @ decimal (status response) @
                           utf16 '' - '' @ errorText))
                else response_json response)
      of Inl error \<Rightarrow>
           Inr \<lparr> content = [\<lparr> type = utf16 ''text'',
                                text' = utf16 ''Error: Failed to fetch from '' @ url @ utf16 '': '' @
                                        message error \<rparr>],
                  isError = Some True \<rparr>
       | Inr payload \<Rightarrow>
           Inr \<lparr> content = [\<lparr> type = utf16 ''text'', text' = JSON_stringify N payload 2 \<rparr>],
                  isError = None \<rparr>)"
proof (cases "CallTool_endpoint N toolName args")
  case (Inl error)
  with assms show ?thesis by (simp add: CallTool_requests)
next
  case (Inr endpoint)
  with assms have issued:
    "snd (makeApiRequest env endpoint \<lparr> method' = Some (utf16 ''GET''), headers = Map.empty \<rparr>) = [(url, init)]"
    by (simp add: CallTool_requests)
  show ?thesis
    by (simp add: CallTool_dispatched [OF Inr] makeApiRequest_outcome [OF issued] throw_def
          utf16_append_left split: sum.split)
qed

subsection \<open>The switch, tool by tool of the catalog\<close>

text \<open>A tool with a required parameter throws when the parameter is falsy, and when the
  call has no arguments at all.\<close>

lemma required_tools:
  "\<forall>t \<in> set ListTools. \<forall>p \<in> set (required t). \<forall>obj.
     \<not> ToBoolean N (obj p) \<longrightarrow>
     (\<exists>msg. CallTool_endpoint N (name t) (Some obj) = Inl (Thrown Error msg))"
  by (simp add: ListTools_def CallTool_endpoint_def property_def throw_def)

lemma required_tools_no_arguments:
  "\<forall>t \<in> set ListTools. \<forall>p \<in> set (required t).
     (\<exists>msg. CallTool_endpoint N (name t) None = Inl (Thrown TypeError msg))"
  by (simp add: ListTools_def CallTool_endpoint_def property_def)



section \<open>The claims\<close>

text \<open>
  C1. Whatever the tool name, the arguments and the outcome of the remote request, the
  CallTool handler returns an envelope (no error leaves it uncaught) whose content is a single
  text block; the envelope either has no \<^verbatim>\<open>isError\<close>, or has \<^verbatim>\<open>isError: true\<close> and a text that
  begins with \<^verbatim>\<open>Error: \<close>.
\<close>

theorem CallTool_returns_envelope:
  "\<exists>t requests.
     CallTool N env toolName args =
       (Inr \<lparr> content = [\<lparr> type = utf16 ''text'', text' = t \<rparr>], isError = None \<rparr>, requests) \<or>
     CallTool N env toolName args =
       (Inr \<lparr> content = [\<lparr> type = utf16 ''text'', text' = utf16 ''Error: '' @ t \<rparr>],
              isError = Some True \<rparr>, requests)"
proof (cases "CallTool_endpoint N toolName args")
  case (Inl error)
  then show ?thesis by (simp add: CallTool_thrown)
next
  case (Inr endpoint)
  then show ?thesis
    by (cases "fst (makeApiRequest env endpoint \<lparr> method' = Some (utf16 ''GET''), headers = Map.empty \<rparr>)")
       (simp_all add: CallTool_dispatched)
qed

text \<open>
  C2. For every tool of the catalog and every parameter its schema requires, a call whose
  arguments lack the parameter or give it the empty string returns an envelope with
  \<^verbatim>\<open>isError: true\<close> and issues no request; so does a call of such a tool with no arguments
  at all. In particular \<^verbatim>\<open>credit_ratings\<close> called with \<^verbatim>\<open>{}\<close> returns exactly the text
  \<^verbatim>\<open>Error: Organization ID is required\<close>, with \<^verbatim>\<open>isError: true\<close> and no request.
\<close>

theorem CallTool_required_missing:
  "(\<forall>t \<in> set ListTools. \<forall>p \<in> set (required t). \<forall>obj.
      obj p = None \<or> obj p = Some (JStr []) \<longrightarrow>
      (\<exists>msg. CallTool N env (name t) (Some obj) =
         (Inr \<lparr> content = [\<lparr> type = utf16 ''text'', text' = utf16 ''Error: '' @ msg \<rparr>],
                isError = Some True \<rparr>, []))) \<and>
   (\<forall>t \<in> set ListTools. \<forall>p \<in> set (required t).
      (\<exists>msg. CallTool N env (name t) None =
         (Inr \<lparr> content = [\<lparr> type = utf16 ''text'', text' = utf16 ''Error: '' @ msg \<rparr>],
                isError = Some True \<rparr>, []))) \<and>
   CallTool N env (utf16 ''credit_ratings'') (Some Map.empty) =
     (Inr \<lparr> content = [\<lparr> type = utf16 ''text'',
                          text' = utf16 ''Error: Organization ID is required'' \<rparr>],
            isError = Some True \<rparr>, [])"
proof (intro conjI)
  show "\<forall>t \<in> set ListTools. \<forall>p \<in> set (required t). \<forall>obj.
      obj p = None \<or> obj p = Some (JStr []) \<longrightarrow>
      (\<exists>msg. CallTool N env (name t) (Some obj) =
         (Inr \<lparr> content = [\<lparr> type = utf16 ''text'', text' = utf16 ''Error: '' @ msg \<rparr>],
                isError = Some True \<rparr>, []))"
  proof (intro ballI allI impI)
    fix t p and obj :: "jsstring \<rightharpoonup> 'a json"
    assume t: "t \<in> set ListTools" and p: "p \<in> set (required t)"
      and missing: "obj p = None \<or> obj p = Some (JStr [])"
    from missing have falsy: "\<not> ToBoolean N (obj p)" by (rule ToBoolean_absent_or_empty)
    note thrown = required_tools [of N, THEN bspec, OF t, THEN bspec, OF p, THEN spec, of obj,
        THEN mp, OF falsy]
    then obtain msg where msg: "CallTool_endpoint N (name t) (Some obj) = Inl (Thrown Error msg)" ..
    have "CallTool N env (name t) (Some obj) =
        (Inr \<lparr> content = [\<lparr> type = utf16 ''text'', text' = utf16 ''Error: '' @ msg \<rparr>],
               isError = Some True \<rparr>, [])"
      using CallTool_thrown [OF msg, where env = env] by simp
    then show "\<exists>msg. CallTool N env (name t) (Some obj) =
        (Inr \<lparr> content = [\<lparr> type = utf16 ''text'', text' = utf16 ''Error: '' @ msg \<rparr>],
               isError = Some True \<rparr>, [])" by (intro exI [of _ msg])
  qed
next
  show "\<forall>t \<in> set ListTools. \<forall>p \<in> set (required t).
      (\<exists>msg. CallTool N env (name t) None =
         (Inr \<lparr> content = [\<lparr> type = utf16 ''text'', text' = utf16 ''Error: '' @ msg \<rparr>],
                isError = Some True \<rparr>, []))"
  proof (intro ballI)
    fix t p
    assume t: "t \<in> set ListTools" and p: "p \<in> set (required t)"
    note thrown = required_tools_no_arguments [of N, THEN bspec, OF t, THEN bspec, OF p]
    then obtain msg where
      msg: "CallTool_endpoint N (name t) (None :: (jsstring \<rightharpoonup> 'a json) option) = Inl (Thrown TypeError msg)" ..
    have "CallTool N env (name t) None =
        (Inr \<lparr> content = [\<lparr> type = utf16 ''text'', text' = utf16 ''Error: '' @ msg \<rparr>],
               isError = Some True \<rparr>, [])"
      using CallTool_thrown [OF msg, where env = env] by simp
    then show "\<exists>msg. CallTool N env (name t) None =
        (Inr \<lparr> content = [\<lparr> type = utf16 ''text'', text' = utf16 ''Error: '' @ msg \<rparr>],
               isError = Some True \<rparr>, [])" by (intro exI [of _ msg])
  qed
next
  have thrown: "CallTool_endpoint N (utf16 ''credit_ratings'') (Some Map.empty) =
      Inl (Thrown Error (utf16 ''Organization ID is required''))"
    by (simp add: CallTool_endpoint_def property_def throw_def)
  show "CallTool N env (utf16 ''credit_ratings'') (Some Map.empty) =
     (Inr \<lparr> content = [\<lparr> type = utf16 ''text'',
                          text' = utf16 ''Error: Organization ID is required'' \<rparr>],
            isError = Some True \<rparr>, [])"
    using CallTool_thrown [OF thrown, where env = env] by (simp add: utf16_append)
qed

theorem CallTool_required_missing_witness:
  "\<lparr> name = utf16 ''stocks_prices'', properties = [(utf16 ''ticker'', utf16 ''string'')],
      required = [utf16 ''ticker''] \<rparr> \<in> set ListTools \<and>
   [utf16 ''exchange'' \<mapsto> JStr (utf16 ''NASDAQ'') :: int json] (utf16 ''ticker'') = None \<and>
   (\<exists>msg. CallTool integers serving (utf16 ''stocks_prices'')
             (Some [utf16 ''exchange'' \<mapsto> JStr (utf16 ''NASDAQ'')]) =
      (Inr \<lparr> content = [\<lparr> type = utf16 ''text'', text' = utf16 ''Error: '' @ msg \<rparr>],
             isError = Some True \<rparr>, []))"
proof -
  let ?t = "\<lparr> name = utf16 ''stocks_prices'', properties = [(utf16 ''ticker'', utf16 ''string'')],
      required = [utf16 ''ticker''] \<rparr>"
  have listed: "?t \<in> set ListTools" by (simp add: ListTools_def)
  have req: "utf16 ''ticker'' \<in> set (required ?t)" by simp
  have absent: "[utf16 ''exchange'' \<mapsto> JStr (utf16 ''NASDAQ'') :: int json] (utf16 ''ticker'') = None"
    by simp
  note at_input = CallTool_required_missing [of integers serving, THEN conjunct1, THEN bspec, OF listed,
      THEN bspec, OF req, THEN spec, of "[utf16 ''exchange'' \<mapsto> JStr (utf16 ''NASDAQ'')]", THEN mp,
      OF disjI1, OF absent]
  have called: "\<exists>msg. CallTool integers serving (utf16 ''stocks_prices'')
             (Some [utf16 ''exchange'' \<mapsto> JStr (utf16 ''NASDAQ'')]) =
      (Inr \<lparr> content = [\<lparr> type = utf16 ''text'', text' = utf16 ''Error: '' @ msg \<rparr>],
             isError = Some True \<rparr>, [])"
    using at_input by simp
  show ?thesis by (rule conjI [OF listed conjI [OF absent called]])
qed

text \<open>
  C3. The claim is that no two entries of the array returned by ListTools have the same name.
  The array of \<^verbatim>\<open>index.js\<close> has 58 entries with 55 different names: it lists
  \<^verbatim>\<open>indices_tickers\<close>, \<^verbatim>\<open>indices_ticker\<close> and \<^verbatim>\<open>indices_prices\<close> twice each, so its names are
  not distinct.
\<close>

theorem ListTools_names_repeat:
  "length ListTools = 58 \<and> \<not> distinct (map name ListTools) \<and>
   length (filter (\<lambda>t. name t = utf16 ''indices_tickers'') ListTools) = 2 \<and>
   length (filter (\<lambda>t. name t = utf16 ''indices_ticker'') ListTools) = 2 \<and>
   length (filter (\<lambda>t. name t = utf16 ''indices_prices'') ListTools) = 2 \<and>
   length (remdups (map name ListTools)) = 55"
  by (simp add: ListTools_def)

text \<open>
  C4. For every name that no entry of the catalog carries, the handler returns the error
  envelope whose text is \<^verbatim>\<open>Error: Unknown tool: \<close> followed by the name, whatever the arguments,
  and issues no request.
\<close>

theorem CallTool_unknown_tool:
  assumes "toolName \<notin> set (map name ListTools)"
  shows "CallTool N env toolName args =
     (Inr \<lparr> content = [\<lparr> type = utf16 ''text'', text' = utf16 ''Error: Unknown tool: '' @ toolName \<rparr>],
            isError = Some True \<rparr>, [])"
proof -
  have "CallTool_endpoint N toolName args = Inl (Thrown Error (utf16 ''Unknown tool: '' @ toolName))"
    using assms by (simp add: ListTools_def CallTool_endpoint_def throw_def)
  then show ?thesis by (simp add: CallTool_thrown utf16_append_left)
qed

theorem CallTool_unknown_tool_witness:
  "utf16 ''get_stock_prices'' \<notin> set (map name ListTools) \<and>
   CallTool integers serving (utf16 ''get_stock_prices'') (Some [utf16 ''ticker'' \<mapsto> JStr (utf16 ''AAPL'')]) =
     (Inr \<lparr> content = [\<lparr> type = utf16 ''text'',
                          text' = utf16 ''Error: Unknown tool: get_stock_prices'' \<rparr>],
            isError = Some True \<rparr>, [])"
proof -
  have absent: "utf16 ''get_stock_prices'' \<notin> set (map name ListTools)"
    by (simp add: ListTools_def)
  show ?thesis
    using absent CallTool_unknown_tool [OF absent, of integers serving]
    by (simp add: utf16_append)
qed




text \<open>
  C6. When the request that a call issues is answered by a response with a success status
  whose body parses as JSON, the envelope returned has no \<^verbatim>\<open>isError\<close> and its single text
  block is \<^verbatim>\<open>JSON.stringify(payload, null, 2)\<close> of the parsed payload.
\<close>

theorem CallTool_success:
  assumes "snd (CallTool N env toolName args) = [(url, init)]"
      and "fetch env url init = Resolved response"
      and "ok response"
      and "response_json response = Inr payload"
  shows "fst (CallTool N env toolName args) =
     Inr \<lparr> content = [\<lparr> type = utf16 ''text'', text' = JSON_stringify N payload 2 \<rparr>],
            isError = None \<rparr>"
  using assms(2-4) by (simp add: CallTool_outcome [OF assms(1)])

theorem CallTool_success_witness:
  "snd (CallTool integers serving (utf16 ''news_general'') None) =
     [(API_BASE_URL @ utf16 ''news'',
       \<lparr> method' = Some (utf16 ''GET''),
         headers = [utf16 ''Content-Type'' \<mapsto> utf16 ''application/json''] \<rparr>)] \<and>
   fetch serving (API_BASE_URL @ utf16 ''news'')
     \<lparr> method' = Some (utf16 ''GET''),
       headers = [utf16 ''Content-Type'' \<mapsto> utf16 ''application/json''] \<rparr> =
     Resolved \<lparr> status = 200, response_text = Inr (utf16 ''{}''), response_json = Inr quotes \<rparr> \<and>
   ok \<lparr> status = 200, response_text = Inr (utf16 ''{}''), response_json = Inr quotes \<rparr> \<and>
   fst (CallTool integers serving (utf16 ''news_general'') None) =
     Inr \<lparr> content = [\<lparr> type = utf16 ''text'', text' = JSON_stringify integers quotes 2 \<rparr>],
            isError = None \<rparr> \<and>
   JSON_stringify integers quotes 2 =
     utf16 ''{'' @ newline @
     utf16 ''  '' @ quote_mark @ utf16 ''ticker'' @ quote_mark @ utf16 '': '' @
       quote_mark @ utf16 ''AAPL'' @ quote_mark @ utf16 '','' @ newline @
     utf16 ''  '' @ quote_mark @ utf16 ''prices'' @ quote_mark @ utf16 '': ['' @ newline @
     utf16 ''    1,'' @ newline @
     utf16 ''    2'' @ newline @
     utf16 ''  ]'' @ newline @
     utf16 ''}''"
proof -
  let ?init = "\<lparr> method' = Some (utf16 ''GET''),
       headers = [utf16 ''Content-Type'' \<mapsto> utf16 ''application/json''] \<rparr>"
  let ?response = "\<lparr> status = 200, response_text = Inr (utf16 ''{}''), response_json = Inr quotes \<rparr>"
  have endpoint: "CallTool_endpoint integers (utf16 ''news_general'') None = Inr (utf16 ''news'')"
    by (simp add: CallTool_endpoint_def)
  have issued: "snd (CallTool integers serving (utf16 ''news_general'') None) =
      [(API_BASE_URL @ utf16 ''news'', ?init)]"
    by (simp add: CallTool_requests endpoint snd_makeApiRequest serving_def)
  have answered: "fetch serving (API_BASE_URL @ utf16 ''news'') ?init = Resolved ?response"
    by (simp add: serving_def)
  have success: "ok ?response" by (simp add: ok_def)
  have parsed: "response_json ?response = Inr quotes" by simp
  note at_input = CallTool_success [OF issued answered success parsed]
  have rendering: "JSON_stringify integers quotes 2 =
     utf16 ''{'' @ newline @
     utf16 ''  '' @ quote_mark @ utf16 ''ticker'' @ quote_mark @ utf16 '': '' @
       quote_mark @ utf16 ''AAPL'' @ quote_mark @ utf16 '','' @ newline @
     utf16 ''  '' @ quote_mark @ utf16 ''prices'' @ quote_mark @ utf16 '': ['' @ newline @
     utf16 ''    1,'' @ newline @
     utf16 ''    2'' @ newline @
     utf16 ''  ]'' @ newline @
     utf16 ''}''"
    by code_simp
  show ?thesis
    by (rule conjI [OF issued conjI [OF answered conjI [OF success conjI [OF at_input rendering]]]])
qed

text \<open>
  C7. When the request that a call issues is answered by a response whose status is not a
  success status, the body is read as text (whatever parsing it as JSON would give), and
  the envelope returned has \<^verbatim>\<open>isError: true\<close> and a text that contains the status code and the
  body text: \<^verbatim>\<open>Error: Failed to fetch from <url>: API request failed: <status> - <body>\<close>.
\<close>

theorem CallTool_request_failed:
  assumes "snd (CallTool N env toolName args) = [(url, init)]"
      and "fetch env url init = Resolved response"
      and "\<not> ok response"
      and "response_text response = Inr body"
  shows "fst (CallTool N env toolName args) =
     Inr \<lparr> content = [\<lparr> type = utf16 ''text'',
                          text' = utf16 ''Error: Failed to fetch from '' @ url @
                                  utf16 '': API request failed: '' @ decimal (status response) @
                                  utf16 '' - '' @ body \<rparr>],
            isError = Some True \<rparr>"
  using assms(2-4) by (simp add: CallTool_outcome [OF assms(1)] bind_def throw_def utf16_append_left)

theorem CallTool_request_failed_witness:
  "snd (CallTool integers not_found (utf16 ''stocks_ticker'')
          (Some [utf16 ''ticker'' \<mapsto> JStr (utf16 ''ZZZZ'')])) =
     [(API_BASE_URL @ utf16 ''stocks/ZZZZ'',
       \<lparr> method' = Some (utf16 ''GET''),
         headers = [utf16 ''Content-Type'' \<mapsto> utf16 ''application/json'',
                    utf16 ''Authorization'' \<mapsto> utf16 ''Bearer secret''] \<rparr>)] \<and>
   fetch not_found (API_BASE_URL @ utf16 ''stocks/ZZZZ'')
     \<lparr> method' = Some (utf16 ''GET''),
       headers = [utf16 ''Content-Type'' \<mapsto> utf16 ''application/json'',
                  utf16 ''Authorization'' \<mapsto> utf16 ''Bearer secret''] \<rparr> =
     Resolved \<lparr> status = 404, response_text = Inr (utf16 ''Not Found''),
                response_json = Inl (Thrown SyntaxError (utf16 ''Unexpected token'')) \<rparr> \<and>
   \<not> ok \<lparr> status = 404, response_text = Inr (utf16 ''Not Found''),
            response_json = Inl (Thrown SyntaxError (utf16 ''Unexpected token'')) :: jserror + int json \<rparr> \<and>
   fst (CallTool integers not_found (utf16 ''stocks_ticker'')
          (Some [utf16 ''ticker'' \<mapsto> JStr (utf16 ''ZZZZ'')])) =
     Inr \<lparr> content = [\<lparr> type = utf16 ''text'',
              text' = utf16 ''Error: Failed to fetch from https://api.axionquant.com/stocks/ZZZZ: API request failed: 404 - Not Found'' \<rparr>],
            isError = Some True \<rparr>"
proof -
  let ?args = "Some [utf16 ''ticker'' \<mapsto> JStr (utf16 ''ZZZZ'') :: int json]"
  let ?init = "\<lparr> method' = Some (utf16 ''GET''),
       headers = [utf16 ''Content-Type'' \<mapsto> utf16 ''application/json'',
                  utf16 ''Authorization'' \<mapsto> utf16 ''Bearer secret''] \<rparr>"
  let ?response = "\<lparr> status = 404, response_text = Inr (utf16 ''Not Found''),
       response_json = Inl (Thrown SyntaxError (utf16 ''Unexpected token'')) :: jserror + int json \<rparr>"
  have endpoint: "CallTool_endpoint integers (utf16 ''stocks_ticker'') ?args = Inr (utf16 ''stocks/ZZZZ'')"
    by (simp add: CallTool_endpoint_def property_def ToString_def utf16_append)
  have issued: "snd (CallTool integers not_found (utf16 ''stocks_ticker'') ?args) =
      [(API_BASE_URL @ utf16 ''stocks/ZZZZ'', ?init)]"
    by (simp add: CallTool_requests endpoint snd_makeApiRequest not_found_def utf16_append)
  have answered: "fetch not_found (API_BASE_URL @ utf16 ''stocks/ZZZZ'') ?init = Resolved ?response"
    by (simp add: not_found_def)
  have failure: "\<not> ok ?response" by (simp add: ok_def)
  have body: "response_text ?response = Inr (utf16 ''Not Found'')" by simp
  have code: "decimal 404 = utf16 ''404''" by code_simp
  note at_input = CallTool_request_failed [OF issued answered failure body]
  have envelope: "fst (CallTool integers not_found (utf16 ''stocks_ticker'') ?args) =
     Inr \<lparr> content = [\<lparr> type = utf16 ''text'',
              text' = utf16 ''Error: Failed to fetch from https://api.axionquant.com/stocks/ZZZZ: API request failed: 404 - Not Found'' \<rparr>],
            isError = Some True \<rparr>"
    using at_input by (simp add: API_BASE_URL_def code utf16_append utf16_append_left)
  show ?thesis
    by (rule conjI [OF issued conjI [OF answered conjI [OF failure envelope]]])
qed

text \<open>
  C8. \<open>makeApiRequest\<close> calls \<open>fetch\<close> exactly once, on \<^verbatim>\<open>API_BASE_URL + endpoint\<close>, with
  the header \<^verbatim>\<open>Content-Type: application/json\<close>, and with \<^verbatim>\<open>Authorization: Bearer <API_KEY>\<close>
  exactly when \<^verbatim>\<open>API_KEY\<close> is set and not empty. A call of a tool issues no request when building
  the endpoint throws, and otherwise exactly one: a GET with exactly these headers.
\<close>

theorem CallTool_single_GET:
  "snd (makeApiRequest env endpoint opts) =
     [(API_BASE_URL @ endpoint,
       opts \<lparr> headers :=
         [utf16 ''Content-Type'' \<mapsto> utf16 ''application/json'']
         ++ (case API_KEY env of None \<Rightarrow> Map.empty
             | Some key \<Rightarrow> if key = [] then Map.empty
                           else [utf16 ''Authorization'' \<mapsto> utf16 ''Bearer '' @ key])
         ++ headers opts \<rparr>)] \<and>
   snd (CallTool N env toolName args) =
     (case CallTool_endpoint N toolName args of
        Inl error \<Rightarrow> []
      | Inr endpoint \<Rightarrow>
          [(API_BASE_URL @ endpoint,
            \<lparr> method' = Some (utf16 ''GET''),
              headers = (\<lambda>h.
                if h = utf16 ''Authorization'' then
                  (case API_KEY env of
                     None \<Rightarrow> None
                   | Some key \<Rightarrow> if key = [] then None else Some (utf16 ''Bearer '' @ key))
                else if h = utf16 ''Content-Type'' then Some (utf16 ''application/json'')
                else None) \<rparr>)])"
proof (rule conjI)
  show "snd (makeApiRequest env endpoint opts) =
     [(API_BASE_URL @ endpoint,
       opts \<lparr> headers :=
         [utf16 ''Content-Type'' \<mapsto> utf16 ''application/json'']
         ++ (case API_KEY env of None \<Rightarrow> Map.empty
             | Some key \<Rightarrow> if key = [] then Map.empty
                           else [utf16 ''Authorization'' \<mapsto> utf16 ''Bearer '' @ key])
         ++ headers opts \<rparr>)]"
    by (rule snd_makeApiRequest)
next
  have "[utf16 ''Content-Type'' \<mapsto> utf16 ''application/json'']
          ++ (case API_KEY env of None \<Rightarrow> Map.empty
              | Some key \<Rightarrow> if key = [] then Map.empty
                            else [utf16 ''Authorization'' \<mapsto> utf16 ''Bearer '' @ key])
          ++ Map.empty =
        (\<lambda>h. if h = utf16 ''Authorization'' then
                  (case API_KEY env of
                     None \<Rightarrow> None
                   | Some key \<Rightarrow> if key = [] then None else Some (utf16 ''Bearer '' @ key))
                else if h = utf16 ''Content-Type'' then Some (utf16 ''application/json'')
                else None)"
    by (rule ext) (simp add: map_add_def split: option.split)
  then show "snd (CallTool N env toolName args) =
     (case CallTool_endpoint N toolName args of
        Inl error \<Rightarrow> []
      | Inr endpoint \<Rightarrow>
          [(API_BASE_URL @ endpoint,
            \<lparr> method' = Some (utf16 ''GET''),
              headers = (\<lambda>h.
                if h = utf16 ''Authorization'' then
                  (case API_KEY env of
                     None \<Rightarrow> None
                   | Some key \<Rightarrow> if key = [] then None else Some (utf16 ''Bearer '' @ key))
                else if h = utf16 ''Content-Type'' then Some (utf16 ''application/json'')
                else None) \<rparr>)])"
    by (simp add: CallTool_requests snd_makeApiRequest split: sum.split)
qed

text \<open>
  C9. Let a call issue its request. Whether \<open>fetch\<close> rejects, the response has a status
  that is not a success status (its body read as text, or the reading itself failing), or a
  successful response fails to parse as JSON, the envelope returned is the error envelope whose
  text is \<^verbatim>\<open>Error: Failed to fetch from <API_BASE_URL + endpoint>: <underlying message>\<close>; the
  envelope has nothing else that tells these kinds apart.
\<close>

theorem CallTool_remote_failure:
  assumes "snd (CallTool N env toolName args) = [(url, init)]"
  shows "(\<exists>endpoint. CallTool_endpoint N toolName args = Inr endpoint \<and> url = API_BASE_URL @ endpoint) \<and>
    (\<forall>underlying.
       (\<exists>error. fetch env url init = Rejected error \<and> underlying = message error) \<or>
       (\<exists>response body. fetch env url init = Resolved response \<and> \<not> ok response \<and>
          response_text response = Inr body \<and>
          underlying = utf16 ''API request failed: '' @ decimal (status response) @ utf16 '' - '' @ body) \<or>
       (\<exists>response error. fetch env url init = Resolved response \<and> \<not> ok response \<and>
          response_text response = Inl error \<and> underlying = message error) \<or>
       (\<exists>response error. fetch env url init = Resolved response \<and> ok response \<and>
          response_json response = Inl error \<and> underlying = message error) \<longrightarrow>
       fst (CallTool N env toolName args) =
         Inr \<lparr> content = [\<lparr> type = utf16 ''text'',
                              text' = utf16 ''Error: Failed to fetch from '' @ url @ utf16 '': '' @
                                      underlying \<rparr>],
                isError = Some True \<rparr>)"
proof (rule conjI)
  show "\<exists>endpoint. CallTool_endpoint N toolName args = Inr endpoint \<and> url = API_BASE_URL @ endpoint"
    using assms
    by (cases "CallTool_endpoint N toolName args") (simp_all add: CallTool_requests snd_makeApiRequest)
next
  show "\<forall>underlying.
       (\<exists>error. fetch env url init = Rejected error \<and> underlying = message error) \<or>
       (\<exists>response body. fetch env url init = Resolved response \<and> \<not> ok response \<and>
          response_text response = Inr body \<and>
          underlying = utf16 ''API request failed: '' @ decimal (status response) @ utf16 '' - '' @ body) \<or>
       (\<exists>response error. fetch env url init = Resolved response \<and> \<not> ok response \<and>
          response_text response = Inl error \<and> underlying = message error) \<or>
       (\<exists>response error. fetch env url init = Resolved response \<and> ok response \<and>
          response_json response = Inl error \<and> underlying = message error) \<longrightarrow>
       fst (CallTool N env toolName args) =
         Inr \<lparr> content = [\<lparr> type = utf16 ''text'',
                              text' = utf16 ''Error: Failed to fetch from '' @ url @ utf16 '': '' @
                                      underlying \<rparr>],
                isError = Some True \<rparr>"
    by (auto simp add: CallTool_outcome [OF assms] throw_def)
qed

theorem CallTool_remote_failure_witness:
  "snd (CallTool integers offline (utf16 ''stocks_prices'')
          (Some [utf16 ''ticker'' \<mapsto> JStr (utf16 ''AAPL'')])) =
     [(API_BASE_URL @ utf16 ''stocks/AAPL/prices'',
       \<lparr> method' = Some (utf16 ''GET''),
         headers = [utf16 ''Content-Type'' \<mapsto> utf16 ''application/json''] \<rparr>)] \<and>
   fetch offline (API_BASE_URL @ utf16 ''stocks/AAPL/prices'')
     \<lparr> method' = Some (utf16 ''GET''),
       headers = [utf16 ''Content-Type'' \<mapsto> utf16 ''application/json''] \<rparr> =
     Rejected (Thrown TypeError (utf16 ''fetch failed'')) \<and>
   fst (CallTool integers offline (utf16 ''stocks_prices'')
          (Some [utf16 ''ticker'' \<mapsto> JStr (utf16 ''AAPL'')])) =
     Inr \<lparr> content = [\<lparr> type = utf16 ''text'',
              text' = utf16 ''Error: Failed to fetch from https://api.axionquant.com/stocks/AAPL/prices: fetch failed'' \<rparr>],
            isError = Some True \<rparr>"
proof -
  let ?args = "Some [utf16 ''ticker'' \<mapsto> JStr (utf16 ''AAPL'') :: int json]"
  let ?url = "API_BASE_URL @ utf16 ''stocks/AAPL/prices''"
  let ?init = "\<lparr> method' = Some (utf16 ''GET''),
       headers = [utf16 ''Content-Type'' \<mapsto> utf16 ''application/json''] \<rparr>"
  have endpoint: "CallTool_endpoint integers (utf16 ''stocks_prices'') ?args =
      Inr (utf16 ''stocks/AAPL/prices'')"
    by (simp add: CallTool_endpoint_def property_def ToString_def utf16_append)
  have issued: "snd (CallTool integers offline (utf16 ''stocks_prices'') ?args) = [(?url, ?init)]"
    by (simp add: CallTool_requests endpoint snd_makeApiRequest offline_def)
  have rejected: "fetch offline ?url ?init = Rejected (Thrown TypeError (utf16 ''fetch failed''))"
    by (simp add: offline_def)
  have kind: "(\<exists>error. fetch offline ?url ?init = (Rejected error :: int fetch_outcome) \<and>
                 utf16 ''fetch failed'' = message error) \<or>
       (\<exists>response body. fetch offline ?url ?init = Resolved response \<and> \<not> ok response \<and>
          response_text response = Inr body \<and>
          utf16 ''fetch failed'' =
            utf16 ''API request failed: '' @ decimal (status response) @ utf16 '' - '' @ body) \<or>
       (\<exists>response error. fetch offline ?url ?init = Resolved response \<and> \<not> ok response \<and>
          response_text response = Inl error \<and> utf16 ''fetch failed'' = message error) \<or>
       (\<exists>response error. fetch offline ?url ?init = Resolved response \<and> ok response \<and>
          response_json response = Inl error \<and> utf16 ''fetch failed'' = message error)"
    by (rule disjI1) (simp add: rejected)
  note at_input = CallTool_remote_failure [OF issued, THEN conjunct2, THEN spec,
      of "utf16 ''fetch failed''", THEN mp, OF kind]
  have envelope: "fst (CallTool integers offline (utf16 ''stocks_prices'') ?args) =
     Inr \<lparr> content = [\<lparr> type = utf16 ''text'',
              text' = utf16 ''Error: Failed to fetch from https://api.axionquant.com/stocks/AAPL/prices: fetch failed'' \<rparr>],
            isError = Some True \<rparr>"
    using at_input by (simp add: API_BASE_URL_def utf16_append utf16_append_left)
  show ?thesis
    by (rule conjI [OF issued conjI [OF rejected envelope]])
qed



end
